theory Spec2Isabelle
  imports Main "HOL-Library.Word"
begin

unbundle bit_operations_syntax

section \<open>Data model\<close>

text \<open>
  The Win32 integer types of \<^verbatim>\<open>StringUtils.h\<close>: \<^verbatim>\<open>BYTE\<close>, \<^verbatim>\<open>WORD\<close> and
  \<^verbatim>\<open>DWORD\<close> are unsigned 8, 16 and 32 bit integers, \<^verbatim>\<open>HRESULT\<close> is a signed 32 bit
  integer (a bit pattern read with \<open>sint\<close>), \<^verbatim>\<open>wchar_t\<close> is a 16 bit code unit and
  \<^verbatim>\<open>std::wstring\<close> a sequence of code units.
\<close>

type_synonym BYTE = "8 word"
type_synonym WORD = "16 word"
type_synonym DWORD = "32 word"
type_synonym HRESULT = "32 word"
type_synonym wchar_t = "16 word"
type_synonym wstring = "wchar_t list"

text \<open>A wide character literal \<^verbatim>\<open>L'c'\<close> and a wide string literal \<^verbatim>\<open>L"..."\<close>.\<close>

definition wchar :: "char \<Rightarrow> wchar_t" where
  "wchar c = of_char c"

definition wide :: "string \<Rightarrow> wstring" where
  "wide s = map wchar s"

section \<open>Hex formatters\<close>

text \<open>
  \<^verbatim>\<open>detail::FormatLowNibble\<close>. The sums \<^verbatim>\<open>L'0' + lowNibble\<close> and
  \<^verbatim>\<open>L'A' + (lowNibble - 10)\<close> are computed on \<^verbatim>\<open>int\<close> after integral promotion and
  converted to \<^verbatim>\<open>wchar_t\<close> on return.
\<close>

definition FormatLowNibble :: "BYTE \<Rightarrow> wchar_t" where
  "FormatLowNibble b =
     (let lowNibble = b AND 0x0F :: BYTE in
      if 0 \<le> lowNibble \<and> lowNibble < 10
      then word_of_int (uint (wchar CHR ''0'') + uint lowNibble)
      else word_of_int (uint (wchar CHR ''A'') + (uint lowNibble - 10)))"

text \<open>
  \<^verbatim>\<open>FormatByte\<close>: \<^verbatim>\<open>b >> 4\<close> is an \<^verbatim>\<open>int\<close>, converted back to \<^verbatim>\<open>BYTE\<close> at the call.
\<close>

definition FormatByte :: "BYTE \<Rightarrow> wstring" where
  "FormatByte b =
     [FormatLowNibble (word_of_int (drop_bit 4 (uint b))),
      FormatLowNibble b]"

definition FormatWord :: "WORD \<Rightarrow> wstring" where
  "FormatWord w =
     (let highByte = (word_of_int (drop_bit 8 (uint w)) :: BYTE);
          lowByte = (word_of_int (uint w AND 0x00FF) :: BYTE)
      in [FormatLowNibble (word_of_int (drop_bit 4 (uint highByte))),
          FormatLowNibble highByte,
          FormatLowNibble (word_of_int (drop_bit 4 (uint lowByte))),
          FormatLowNibble lowByte])"

definition FormatDword :: "DWORD \<Rightarrow> wstring" where
  "FormatDword dw =
     (let lowWord = (ucast (dw AND 0x0000FFFF) :: WORD);
          highWord = (ucast (drop_bit 16 dw) :: WORD)
      in FormatWord highWord @ FormatWord lowWord)"

text \<open>
  \<^verbatim>\<open>FormatHResult\<close>: the signed \<^verbatim>\<open>HRESULT\<close> is converted to the unsigned
  \<^verbatim>\<open>DWORD\<close> parameter of \<^verbatim>\<open>FormatDword\<close>, that is, its value modulo \<open>2 ^ 32\<close>.
\<close>

definition FormatHResult :: "HRESULT \<Rightarrow> wstring" where
  "FormatHResult hr = FormatDword (word_of_int (sint hr))"

text \<open>
  The reference rendering the tests compare with (\<^verbatim>\<open>%02X\<close>, \<^verbatim>\<open>%04X\<close>, \<^verbatim>\<open>%08X\<close>):
  \<open>n\<close> base 16 digits of a value, most significant first, upper case.
\<close>

definition hex_digit :: "nat \<Rightarrow> char" where
  "hex_digit k = ''0123456789ABCDEF'' ! (k mod 16)"

fun hex_render :: "nat \<Rightarrow> nat \<Rightarrow> string" where
  "hex_render 0 v = []"
| "hex_render (Suc n) v = hex_render n (v div 16) @ [hex_digit v]"

definition is_hex_char :: "wchar_t \<Rightarrow> bool" where
  "is_hex_char c = (c \<in> set (wide ''0123456789ABCDEF''))"


text \<open>
  The digit a character of the output stands for; used to read a formatted value back.
\<close>

definition hex_value :: "wchar_t \<Rightarrow> nat" where
  "hex_value c = (if c < 58 then unat c - 48 else unat c - 55)"

fun parse_hex_from :: "nat \<Rightarrow> wstring \<Rightarrow> nat" where
  "parse_hex_from acc [] = acc"
| "parse_hex_from acc (c # s) = parse_hex_from (16 * acc + hex_value c) s"

definition parse_hex :: "wstring \<Rightarrow> nat" where
  "parse_hex s = parse_hex_from 0 s"

text \<open>
  Modelled from the spec: the status constants of the platform SDK (\<^verbatim>\<open>winerror.h\<close> is not
  part of the repository): the success status is 0, the invalid argument status is the bit
  pattern \<^verbatim>\<open>0x80070057\<close>.
\<close>

definition S_OK :: HRESULT where
  "S_OK = 0"

definition E_INVALIDARG :: HRESULT where
  "E_INVALIDARG = 0x80070057"

section \<open>Outcomes of a call\<close>

text \<open>
  A call returns a value, leaves by a C++ exception, or has undefined behaviour.
\<close>

datatype 'a outcome = Returned 'a | Thrown | Undefined

section \<open>Resource strings\<close>

text \<open>
  Modelled from the spec: the host platform's resource table and its lookup
  \<^verbatim>\<open>::LoadString\<close> (a Win32 function, not part of the repository). The table maps a module
  handle and a string id to the stored text; an invalid handle has no entry. Called with a
  buffer size of 0, the lookup stores a pointer to the resource itself in the buffer argument
  and returns the length of the text, or returns 0 and stores nothing when there is no entry.
  The pointer is modelled by the text it points to, \<open>None\<close> being \<^verbatim>\<open>nullptr\<close>.
\<close>

type_synonym HINSTANCE = nat
type_synonym UINT = "32 word"
type_synonym resource_table = "HINSTANCE \<times> UINT \<rightharpoonup> wstring"

definition LoadString :: "resource_table \<Rightarrow> HINSTANCE \<Rightarrow> UINT \<Rightarrow> wstring option \<times> int" where
  "LoadString table hInstance stringId =
     (case table (hInstance, stringId) of
        None \<Rightarrow> (None, 0)
      | Some text \<Rightarrow> (Some text, int (length text)))"

text \<open>
  \<^verbatim>\<open>LoadStringResource\<close>. The constructor \<^verbatim>\<open>std::wstring(buffer, len)\<close> copies \<^verbatim>\<open>len\<close>
  code units from \<^verbatim>\<open>buffer\<close>; a negative \<^verbatim>\<open>len\<close> converts to a size beyond
  \<^verbatim>\<open>max_size()\<close> and the constructor throws, reading through \<^verbatim>\<open>nullptr\<close> or past the
  end of the text is undefined.
\<close>

definition LoadStringResource :: "resource_table \<Rightarrow> HINSTANCE \<Rightarrow> UINT \<Rightarrow> wstring outcome" where
  "LoadStringResource table hInstance stringId =
     (let (buffer, len) = LoadString table hInstance stringId in
      if len \<noteq> 0
      then (if len < 0 then Thrown
            else case buffer of
                   None \<Rightarrow> Undefined
                 | Some text \<Rightarrow>
                     if nat len \<le> length text then Returned (take (nat len) text)
                     else Undefined)
      else Returned [])"

section \<open>Printf-like formatting\<close>

text \<open>
  \<^verbatim>\<open>StringPrintf\<close> calls two functions of the C runtime, which are parameters of the model:
  \<^item> \<open>vscwprintf format args\<close> is the value \<^verbatim>\<open>_vscwprintf\<close> returns, the number of code
    units of the rendered text without the terminator, or a negative value for a failure;
  \<^item> \<open>vsnwprintf_s sizeOfBuffer format args\<close> is the sequence of code units
    \<^verbatim>\<open>_vsnwprintf_s\<close> stores from the start of its buffer; it never stores more than
    \<^verbatim>\<open>sizeOfBuffer\<close> of them, and its return value is discarded by the caller.
  The variable arguments are a value of any type \<open>'a\<close>, handed to both calls unchanged.
\<close>

definition INT_MAX :: int where
  "INT_MAX = 2147483647"

text \<open>\<^verbatim>\<open>std::wstring::resize\<close>: cut, or fill up with zero code units.\<close>

definition resize :: "wstring \<Rightarrow> nat \<Rightarrow> wstring" where
  "resize s n = take n s @ replicate (n - length s) 0"

text \<open>
  Writing through \<^verbatim>\<open>&result[0]\<close> with a bound of \<open>sizeOfBuffer\<close> code units: the
  characters of the string are overwritten from the front, its size stays what it was.
\<close>

definition store :: "wstring \<Rightarrow> nat \<Rightarrow> wstring \<Rightarrow> wstring" where
  "store result sizeOfBuffer written =
     (let w = take (min sizeOfBuffer (length result)) written
      in w @ drop (length w) result)"

text \<open>\<^verbatim>\<open>std::wstring::pop_back\<close> is undefined on an empty string.\<close>

definition pop_back :: "wstring \<Rightarrow> wstring outcome" where
  "pop_back s = (if s = [] then Undefined else Returned (butlast s))"

text \<open>
  \<^verbatim>\<open>StringPrintf\<close>. The sum \<^verbatim>\<open>_vscwprintf(format, args) + 1\<close> is an \<^verbatim>\<open>int\<close>, which
  overflows at \<open>INT_MAX\<close>; \<^verbatim>\<open>resize\<close> converts a negative length to a size beyond
  \<^verbatim>\<open>max_size()\<close> and throws \<^verbatim>\<open>std::length_error\<close>. Running out of memory is not
  modelled.
\<close>

definition StringPrintf ::
  "('f \<Rightarrow> 'a \<Rightarrow> int) \<Rightarrow> (nat \<Rightarrow> 'f \<Rightarrow> 'a \<Rightarrow> wstring) \<Rightarrow> 'f \<Rightarrow> 'a \<Rightarrow> wstring outcome" where
  "StringPrintf vscwprintf vsnwprintf_s format args =
     (let n = vscwprintf format args in
      if INT_MAX \<le> n then Undefined
      else
        let length = n + 1 in
        if length < 0 then Thrown
        else
          let result = resize [] (nat length);
              result = store result (nat length) (vsnwprintf_s (nat length) format args)
          in pop_back result)"

subsection \<open>A printf for the examples\<close>

text \<open>
  Modelled from the spec: the host platform's printf-style rendering (the C runtime is not
  part of the repository), for the directives that the spec's examples and the repository's
  test use. A directive is \<^verbatim>\<open>%\<close>, an optional \<^verbatim>\<open>0\<close> flag, an optional decimal field
  width and a conversion: \<^verbatim>\<open>s\<close> takes a pointer to a wide string, read up to its
  terminator; \<^verbatim>\<open>d\<close> takes a 32 bit integer and writes it signed in decimal; \<^verbatim>\<open>u\<close>,
  \<^verbatim>\<open>x\<close> and \<^verbatim>\<open>X\<close> write it unsigned in decimal and in lower and upper case
  hexadecimal; \<^verbatim>\<open>%%\<close> is a percent sign. A field narrower than the width is filled on the
  left, with zeros after the sign under the \<^verbatim>\<open>0\<close> flag and with spaces otherwise. Every
  other character stands for itself and the template ends at its terminator. The result is
  \<open>None\<close> for a malformed template (a directive that is incomplete), for an argument that is
  missing or of the other kind, and for every directive that is not one of these, which this
  model does not render.
\<close>

datatype arg = ArgStr wstring | ArgInt "32 word"

definition dec_digit :: "nat \<Rightarrow> char" where
  "dec_digit k = ''0123456789'' ! (k mod 10)"

function dec_render :: "nat \<Rightarrow> string" where
  "dec_render n = (if n < 10 then [dec_digit n] else dec_render (n div 10) @ [dec_digit n])"
  by pat_completeness auto
termination
  by (relation "measure id") auto

definition lower_hex_digit :: "nat \<Rightarrow> char" where
  "lower_hex_digit k = ''0123456789abcdef'' ! (k mod 16)"

function hex_digits :: "bool \<Rightarrow> nat \<Rightarrow> string" where
  "hex_digits upper n =
     (let d = (if upper then hex_digit n else lower_hex_digit n)
      in if n < 16 then [d] else hex_digits upper (n div 16) @ [d])"
  by pat_completeness auto
termination
  by (relation "measure snd") auto

definition pad :: "bool \<Rightarrow> nat \<Rightarrow> string \<Rightarrow> string \<Rightarrow> wstring" where
  "pad zero width sign digits =
     (let fill = width - (length sign + length digits)
      in if zero then wide (sign @ replicate fill CHR ''0'' @ digits)
         else wide (replicate fill CHR '' '' @ sign @ digits))"

definition int_render :: "bool \<Rightarrow> nat \<Rightarrow> 32 word \<Rightarrow> wstring" where
  "int_render zero width i =
     (if sint i < 0 then pad zero width ''-'' (dec_render (nat (- sint i)))
      else pad zero width [] (dec_render (nat (sint i))))"

definition c_str :: "wstring \<Rightarrow> wstring" where
  "c_str s = takeWhile (\<lambda>c. c \<noteq> 0) s"

definition str_render :: "nat \<Rightarrow> wstring \<Rightarrow> wstring" where
  "str_render width s = replicate (width - length (c_str s)) (wchar CHR '' '') @ c_str s"

definition is_digit :: "wchar_t \<Rightarrow> bool" where
  "is_digit c = (wchar CHR ''0'' \<le> c \<and> c \<le> wchar CHR ''9'')"

text \<open>
  The directive being read: whether the \<^verbatim>\<open>0\<close> flag was given, whether the width has
  begun, and the width so far.
\<close>

datatype directive = Directive bool bool nat

fun render_from :: "directive option \<Rightarrow> wstring \<Rightarrow> arg list \<Rightarrow> wstring option" where
  "render_from None [] args = Some []"
| "render_from (Some d) [] args = None"
| "render_from None (c # format) args =
     (if c = 0 then Some []
      else if c = wchar CHR ''%'' then render_from (Some (Directive False False 0)) format args
      else map_option ((#) c) (render_from None format args))"
| "render_from (Some (Directive zero started width)) (c # format) args =
     (if c = wchar CHR ''%'' then
        (if zero \<or> started then None else map_option ((#) c) (render_from None format args))
      else if c = wchar CHR ''0'' \<and> \<not> started then
        render_from (Some (Directive True False 0)) format args
      else if is_digit c then
        render_from (Some (Directive zero True (10 * width + (unat c - 48)))) format args
      else if c = wchar CHR ''s'' then
        (case args of
           ArgStr s # args' \<Rightarrow>
             if zero then None
             else map_option ((@) (str_render width s)) (render_from None format args')
         | _ \<Rightarrow> None)
      else if c = wchar CHR ''d'' then
        (case args of
           ArgInt i # args' \<Rightarrow>
             map_option ((@) (int_render zero width i)) (render_from None format args')
         | _ \<Rightarrow> None)
      else if c = wchar CHR ''u'' then
        (case args of
           ArgInt i # args' \<Rightarrow>
             map_option ((@) (pad zero width [] (dec_render (unat i))))
               (render_from None format args')
         | _ \<Rightarrow> None)
      else if c = wchar CHR ''x'' \<or> c = wchar CHR ''X'' then
        (case args of
           ArgInt i # args' \<Rightarrow>
             map_option ((@) (pad zero width [] (hex_digits (c = wchar CHR ''X'') (unat i))))
               (render_from None format args')
         | _ \<Rightarrow> None)
      else None)"

definition render :: "wstring \<Rightarrow> arg list \<Rightarrow> wstring option" where
  "render format args = render_from None format args"

text \<open>
  Modelled from the spec: the measuring primitive returns the exact length of the rendered
  text, or -1 for a failure or a length that is no \<^verbatim>\<open>int\<close>; the rendering primitive,
  bounded by the buffer size and truncating, stores as much of the text as fits followed by
  the terminator, an empty string on a failure, and nothing for a buffer of size 0.
\<close>

definition crt_vscwprintf :: "wstring \<Rightarrow> arg list \<Rightarrow> int" where
  "crt_vscwprintf format args =
     (case render format args of
        None \<Rightarrow> - 1
      | Some text \<Rightarrow> if int (length text) \<le> INT_MAX then int (length text) else - 1)"

definition crt_vsnwprintf_s :: "nat \<Rightarrow> wstring \<Rightarrow> arg list \<Rightarrow> wstring" where
  "crt_vsnwprintf_s sizeOfBuffer format args =
     (if sizeOfBuffer = 0 then []
      else case render format args of
             None \<Rightarrow> [0]
           | Some text \<Rightarrow> take (sizeOfBuffer - 1) text @ [0])"


section \<open>Arithmetic of the splits\<close>

lemma low_nibble_mask: "(b AND 0x0F :: BYTE) = take_bit 4 b"
proof -
  have "(0x0F :: BYTE) = mask 4" by (simp add: mask_eq_exp_minus_1)
  then show ?thesis by (simp only: take_bit_eq_mask)
qed

lemma unat_low_nibble: "unat (b AND 0x0F :: BYTE) = unat b mod 16"
  by (simp add: low_nibble_mask take_bit_eq_mod unat_mod)

lemma nibble_cases:
  assumes "k < (16::nat)"
  shows "k = 15 \<or> k = 14 \<or> k = 13 \<or> k = 12 \<or> k = 11 \<or> k = 10 \<or> k = 9 \<or> k = 8
    \<or> k = 7 \<or> k = 6 \<or> k = 5 \<or> k = 4 \<or> k = 3 \<or> k = 2 \<or> k = 1 \<or> k = 0"
  using assms by arith

lemma unat_BYTE_less: "unat (b :: BYTE) < 256"
  using unsigned_less [of b, where ?'a = nat] by simp

lemma unat_WORD_less: "unat (w :: WORD) < 65536"
  using unsigned_less [of w, where ?'a = nat] by simp

lemma unat_DWORD_less: "unat (dw :: DWORD) < 4294967296"
  using unsigned_less [of dw, where ?'a = nat] by simp

lemma unat_high_nibble:
  "unat (word_of_int (drop_bit 4 (uint b)) :: BYTE) = unat (b :: BYTE) div 16"
proof -
  have "drop_bit 4 (uint b) = int (unat b div 16)"
    by (simp add: drop_bit_eq_div zdiv_int)
  moreover have "unat b div 16 < 256" using unat_BYTE_less [of b] by simp
  ultimately show ?thesis by (simp add: unat_of_nat)
qed

lemma unat_highByte:
  "unat (word_of_int (drop_bit 8 (uint w)) :: BYTE) = unat (w :: WORD) div 256"
proof -
  have "drop_bit 8 (uint w) = int (unat w div 256)"
    by (simp add: drop_bit_eq_div zdiv_int)
  moreover have "unat w div 256 < 256" using unat_WORD_less [of w] by simp
  ultimately show ?thesis by (simp add: unat_of_nat)
qed

lemma unat_lowByte:
  "unat (word_of_int (uint w AND 0x00FF) :: BYTE) = unat (w :: WORD) mod 256"
proof -
  have "(0xFF :: int) = mask 8" by (simp add: mask_eq_exp_minus_1)
  then have "uint w AND 0x00FF = int (unat w mod 256)"
    by (simp only: take_bit_eq_mask [symmetric] take_bit_eq_mod) (simp add: zmod_int)
  moreover have "unat w mod 256 < 256" by simp
  ultimately show ?thesis by (simp add: unat_of_nat)
qed

lemma unat_lowWord:
  "unat (ucast (dw AND 0x0000FFFF) :: WORD) = unat (dw :: DWORD) mod 65536"
proof -
  have "(0xFFFF :: DWORD) = mask 16" by (simp add: mask_eq_exp_minus_1)
  then have "dw AND 0xFFFF = take_bit 16 dw" by (simp only: take_bit_eq_mask)
  then show ?thesis
    by (simp add: unsigned_ucast_eq take_bit_eq_mod unat_mod)
qed

lemma unat_highWord:
  "unat (ucast (drop_bit 16 dw) :: WORD) = unat (dw :: DWORD) div 65536"
proof -
  have "unat dw div 65536 < 65536" using unat_DWORD_less [of dw] by simp
  then show ?thesis
    by (simp add: unsigned_ucast_eq unat_drop_bit_eq drop_bit_eq_div unat_div take_bit_eq_mod)
qed

section \<open>The nibble digit\<close>

lemma FormatLowNibble_value:
  "FormatLowNibble b =
     (if unat b mod 16 < 10 then 48 + word_of_nat (unat b mod 16)
      else 55 + word_of_nat (unat b mod 16))"
proof -
  define v where "v = (b AND 0x0F :: BYTE)"
  have u: "unat v = unat b mod 16" by (simp add: v_def unat_low_nibble)
  have lt: "v < 10 \<longleftrightarrow> unat b mod 16 < 10"
    by (simp add: word_less_nat_alt u)
  have ui: "uint v = int (unat b mod 16)" using u by (metis uint_nat)
  show ?thesis
    unfolding FormatLowNibble_def Let_def v_def [symmetric] lt ui
    by (simp add: wchar_def)
qed

lemma FormatLowNibble_hex_digit: "FormatLowNibble b = wchar (hex_digit (unat b))"
proof -
  have "unat b mod 16 < 16" by simp
  from nibble_cases [OF this] show ?thesis
    by (elim disjE) (simp_all add: FormatLowNibble_value hex_digit_def wchar_def)
qed

lemma hex_digit_is_hex_char: "is_hex_char (wchar (hex_digit k))"
proof -
  have "k mod 16 < 16" by simp
  from nibble_cases [OF this] show ?thesis
    by (elim disjE) (simp_all add: hex_digit_def is_hex_char_def wide_def)
qed


section \<open>Bytes, words and double words\<close>

lemma hex_render_2: "hex_render 2 v = [hex_digit (v div 16), hex_digit v]"
  by (simp add: numeral_2_eq_2)

lemma FormatByte_digits:
  "FormatByte b = [wchar (hex_digit (unat b div 16)), wchar (hex_digit (unat b))]"
  by (simp add: FormatByte_def FormatLowNibble_hex_digit unat_high_nibble)

lemma FormatWord_bytes:
  "FormatWord w =
     FormatByte (word_of_int (drop_bit 8 (uint w))) @ FormatByte (word_of_int (uint w AND 0x00FF))"
  by (simp add: FormatWord_def FormatByte_def Let_def)

lemma FormatDword_words:
  "FormatDword dw = FormatWord (ucast (drop_bit 16 dw)) @ FormatWord (ucast (dw AND 0x0000FFFF))"
  by (simp only: FormatDword_def Let_def)

lemma length_FormatByte: "length (FormatByte b) = 2"
  by (simp add: FormatByte_def)

lemma length_FormatWord: "length (FormatWord w) = 4"
  by (simp add: FormatWord_def Let_def)

lemma length_FormatDword: "length (FormatDword dw) = 8"
  by (simp add: FormatDword_def Let_def length_FormatWord)

section \<open>Reading the digits back\<close>

lemma hex_value_digit: "hex_value (wchar (hex_digit k)) = k mod 16"
proof -
  have "k mod 16 < 16" by simp
  from nibble_cases [OF this] show ?thesis
    by (elim disjE) (simp_all add: hex_digit_def hex_value_def wchar_def)
qed

lemma hex_digit_eqD:
  assumes "wchar (hex_digit j) = wchar (hex_digit k)"
  shows "j mod 16 = k mod 16"
  using assms hex_value_digit [of j] hex_value_digit [of k] by simp

lemma append_eq_same_length:
  assumes "xs @ ys = xs' @ ys'" and "length xs = length xs'"
  shows "xs = xs'" and "ys = ys'"
  using assms by simp_all

lemma FormatByte_inj:
  assumes "FormatByte a = FormatByte b"
  shows "a = b"
proof -
  from assms have d1: "wchar (hex_digit (unat a div 16)) = wchar (hex_digit (unat b div 16))"
    and d0: "wchar (hex_digit (unat a)) = wchar (hex_digit (unat b))"
    unfolding FormatByte_digits by simp_all
  have h: "unat a div 16 mod 16 = unat b div 16 mod 16" by (rule hex_digit_eqD [OF d1])
  have l: "unat a mod 16 = unat b mod 16" by (rule hex_digit_eqD [OF d0])
  have "unat a div 16 < 16" "unat b div 16 < 16"
    using unat_BYTE_less [of a] unat_BYTE_less [of b] by simp_all
  with h have "unat a div 16 = unat b div 16" by simp
  with l have "unat a = unat b"
    by (metis div_mult_mod_eq)
  then show ?thesis by (rule unsigned_word_eqI)
qed

lemma FormatWord_inj:
  assumes "FormatWord a = FormatWord b"
  shows "a = b"
proof -
  let ?ha = "word_of_int (drop_bit 8 (uint a)) :: BYTE"
  let ?hb = "word_of_int (drop_bit 8 (uint b)) :: BYTE"
  let ?la = "word_of_int (uint a AND 0x00FF) :: BYTE"
  let ?lb = "word_of_int (uint b AND 0x00FF) :: BYTE"
  from assms have e: "FormatByte ?ha @ FormatByte ?la = FormatByte ?hb @ FormatByte ?lb"
    by (simp only: FormatWord_bytes)
  have len: "length (FormatByte ?ha) = length (FormatByte ?hb)"
    by (simp only: length_FormatByte)
  have "?ha = ?hb"
    by (rule FormatByte_inj) (rule append_eq_same_length(1) [OF e len])
  then have "unat ?ha = unat ?hb" by (rule arg_cong)
  then have h: "unat a div 256 = unat b div 256" by (simp only: unat_highByte)
  have "?la = ?lb"
    by (rule FormatByte_inj) (rule append_eq_same_length(2) [OF e len])
  then have "unat ?la = unat ?lb" by (rule arg_cong)
  then have l: "unat a mod 256 = unat b mod 256" by (simp only: unat_lowByte)
  from h l have "unat a = unat b"
    by (metis div_mult_mod_eq)
  then show ?thesis by (rule unsigned_word_eqI)
qed

lemma FormatDword_inj:
  assumes "FormatDword a = FormatDword b"
  shows "a = b"
proof -
  let ?ha = "ucast (drop_bit 16 a) :: WORD"
  let ?hb = "ucast (drop_bit 16 b) :: WORD"
  let ?la = "ucast (a AND 0x0000FFFF) :: WORD"
  let ?lb = "ucast (b AND 0x0000FFFF) :: WORD"
  from assms have e: "FormatWord ?ha @ FormatWord ?la = FormatWord ?hb @ FormatWord ?lb"
    by (simp only: FormatDword_words)
  have len: "length (FormatWord ?ha) = length (FormatWord ?hb)"
    by (simp only: length_FormatWord)
  have "?ha = ?hb"
    by (rule FormatWord_inj) (rule append_eq_same_length(1) [OF e len])
  then have "unat ?ha = unat ?hb" by (rule arg_cong)
  then have h: "unat a div 65536 = unat b div 65536" by (simp only: unat_highWord)
  have "?la = ?lb"
    by (rule FormatWord_inj) (rule append_eq_same_length(2) [OF e len])
  then have "unat ?la = unat ?lb" by (rule arg_cong)
  then have l: "unat a mod 65536 = unat b mod 65536" by (simp only: unat_lowWord)
  from h l have "unat a = unat b"
    by (metis div_mult_mod_eq)
  then show ?thesis by (rule unsigned_word_eqI)
qed

lemma highByte_ucast: "(word_of_int (drop_bit 8 (uint w)) :: BYTE) = ucast (drop_bit 8 (w :: WORD))"
proof (rule unsigned_word_eqI [where ?'a = nat])
  have "unat w div 256 < 256" using unat_WORD_less [of w] by simp
  then show "unat (word_of_int (drop_bit 8 (uint w)) :: BYTE) = unat (ucast (drop_bit 8 w) :: BYTE)"
    by (simp only: unat_highByte) (simp add: unsigned_ucast_eq unat_drop_bit_eq drop_bit_eq_div unat_div take_bit_eq_mod)
qed

lemma lowByte_ucast: "(word_of_int (uint w AND 0x00FF) :: BYTE) = ucast ((w :: WORD) AND 0x00FF)"
proof (rule unsigned_word_eqI [where ?'a = nat])
  have "(0xFF :: WORD) = mask 8" by (simp add: mask_eq_exp_minus_1)
  then have "w AND 0xFF = take_bit 8 w" by (simp only: take_bit_eq_mask)
  then show "unat (word_of_int (uint w AND 0x00FF) :: BYTE) = unat (ucast (w AND 0x00FF) :: BYTE)"
    by (simp only: unat_lowByte) (simp add: unsigned_ucast_eq take_bit_eq_mod unat_mod)
qed

lemma parse_hex_from_acc:
  "parse_hex_from x s = x * 16 ^ length s + parse_hex_from 0 s"
proof (induction s arbitrary: x)
  case Nil
  show ?case by simp
next
  case (Cons c s)
  have "parse_hex_from x (c # s) = (16 * x + hex_value c) * 16 ^ length s + parse_hex_from 0 s"
    by (simp add: Cons.IH [of "16 * x + hex_value c"])
  moreover have "parse_hex_from 0 (c # s) = hex_value c * 16 ^ length s + parse_hex_from 0 s"
    by (simp add: Cons.IH [of "hex_value c"])
  ultimately show ?case by (simp add: algebra_simps)
qed

lemma parse_hex_from_append:
  "parse_hex_from x (xs @ ys) = parse_hex_from (parse_hex_from x xs) ys"
  by (induction xs arbitrary: x) simp_all

lemma parse_hex_append:
  "parse_hex (xs @ ys) = parse_hex xs * 16 ^ length ys + parse_hex ys"
  unfolding parse_hex_def parse_hex_from_append
  by (rule parse_hex_from_acc)

lemma parse_hex_FormatByte: "parse_hex (FormatByte b) = unat b"
proof -
  have "unat b div 16 < 16" using unat_BYTE_less [of b] by simp
  then have "unat b div 16 mod 16 = unat b div 16" by simp
  then have "parse_hex (FormatByte b) = 16 * (unat b div 16) + unat b mod 16"
    by (simp add: parse_hex_def FormatByte_digits hex_value_digit)
  then show ?thesis by simp
qed

lemma parse_hex_FormatWord: "parse_hex (FormatWord w) = unat w"
proof -
  have "parse_hex (FormatWord w) = (unat w div 256) * 256 + unat w mod 256"
    by (simp only: FormatWord_bytes parse_hex_append parse_hex_FormatByte length_FormatByte
        unat_highByte unat_lowByte) simp
  then show ?thesis by simp
qed

lemma parse_hex_FormatDword: "parse_hex (FormatDword dw) = unat dw"
proof -
  have "parse_hex (FormatDword dw) = (unat dw div 65536) * 65536 + unat dw mod 65536"
    by (simp only: FormatDword_words parse_hex_append parse_hex_FormatWord length_FormatWord
        unat_highWord unat_lowWord) simp
  then show ?thesis by simp
qed

section \<open>The buffer of the formatted text\<close>

lemma length_resize: "length (resize s n) = n"
  by (simp add: resize_def)

lemma length_store: "length (store result sizeOfBuffer written) = length result"
  by (simp add: store_def Let_def)

lemma store_exact:
  "length written = length result \<Longrightarrow> store result (length result) written = written"
  by (simp add: store_def Let_def)

lemma pop_back_length:
  "s \<noteq> [] \<Longrightarrow> \<exists>t. pop_back s = Returned t \<and> length t = length s - 1"
  by (simp add: pop_back_def)

lemma StringPrintf_unfold:
  assumes "vscwprintf format args = n" and "0 \<le> n" and "n < INT_MAX"
  shows "StringPrintf vscwprintf vsnwprintf_s format args =
           pop_back (store (resize [] (nat (n + 1))) (nat (n + 1))
                      (vsnwprintf_s (nat (n + 1)) format args))"
  using assms by (simp add: StringPrintf_def Let_def)

lemma StringPrintf_returns:
  assumes "vscwprintf format args = n" and "0 \<le> n" and "n < INT_MAX"
  shows "\<exists>s. StringPrintf vscwprintf vsnwprintf_s format args = Returned s \<and> int (length s) = n"
proof -
  let ?n = "nat (n + 1)"
  let ?buf = "store (resize [] ?n) ?n (vsnwprintf_s ?n format args)"
  have u: "StringPrintf vscwprintf vsnwprintf_s format args = pop_back ?buf"
    using assms by (rule StringPrintf_unfold)
  have len: "length ?buf = ?n" by (simp only: length_store length_resize)
  with assms(2) have "?buf \<noteq> []" by auto
  from pop_back_length [OF this] obtain t where
    t: "pop_back ?buf = Returned t" "length t = length ?buf - 1" by blast
  from t(2) len assms(2) have "int (length t) = n" by simp
  with t(1) u show ?thesis by simp
qed

lemma StringPrintf_text:
  assumes "vscwprintf format args = int (length text)" and "int (length text) < INT_MAX"
    and "vsnwprintf_s (Suc (length text)) format args = text @ [0]"
  shows "StringPrintf vscwprintf vsnwprintf_s format args = Returned text"
proof -
  let ?n = "Suc (length text)"
  have n: "nat (int (length text) + 1) = ?n" by simp
  have "StringPrintf vscwprintf vsnwprintf_s format args =
          pop_back (store (resize [] (nat (int (length text) + 1))) (nat (int (length text) + 1))
                      (vsnwprintf_s (nat (int (length text) + 1)) format args))"
    using assms(1) _ assms(2) by (rule StringPrintf_unfold) simp
  then have u: "StringPrintf vscwprintf vsnwprintf_s format args =
          pop_back (store (resize [] ?n) ?n (text @ [0]))"
    by (simp only: n assms(3))
  have "length (text @ [0]) = length (resize [] ?n)"
    by (simp add: length_resize)
  from store_exact [OF this] have "store (resize [] ?n) ?n (text @ [0]) = text @ [0]"
    by (simp only: length_resize)
  with u show ?thesis by (simp add: pop_back_def)
qed






subsection \<open>The printf of the examples\<close>

lemmas render_eval = render_def wide_def wchar_def is_digit_def int_render_def str_render_def
  c_str_def pad_def dec_digit_def hex_digit_def lower_hex_digit_def Let_def

lemma render_hello:
  "render (wide ''Hello %s, you are %d years old.'') [ArgStr (wide ''Ann''), ArgInt 30] =
     Some (wide ''Hello Ann, you are 30 years old.'')"
  by (simp add: render_eval dec_render.simps [of 30] dec_render.simps [of 3])

lemma render_test_template:
  "render (wide ''Testing StringPrintf %s %d 0x%08X.'')
     [ArgStr (wide ''Hello''), ArgInt 10, ArgInt E_INVALIDARG] =
     Some (wide ''Testing StringPrintf Hello 10 0x80070057.'')"
  by (simp add: render_eval E_INVALIDARG_def dec_render.simps [of 10] dec_render.simps [of 1]
      hex_digits.simps [of True 2147942487] hex_digits.simps [of True 134246405]
      hex_digits.simps [of True 8390400] hex_digits.simps [of True 524400]
      hex_digits.simps [of True 32775] hex_digits.simps [of True 2048]
      hex_digits.simps [of True 128] hex_digits.simps [of True 8])

lemma render_hex_example:
  "render (wide ''0x%08X'') [ArgInt 0xDEADBEEF] = Some (wide ''0x'' @ FormatDword 0xDEADBEEF)"
  by (simp add: render_eval FormatDword_def FormatWord_def FormatLowNibble_def
      hex_digits.simps [of True 3735928559] hex_digits.simps [of True 233495534]
      hex_digits.simps [of True 14593470] hex_digits.simps [of True 912091]
      hex_digits.simps [of True 57005] hex_digits.simps [of True 3562]
      hex_digits.simps [of True 222] hex_digits.simps [of True 13])

lemma render_minus:
  "render (wide ''%d%%'') [ArgInt (- 1205)] = Some (wide ''-1205%'')"
  by (simp add: render_eval dec_render.simps [of 1205] dec_render.simps [of 120]
      dec_render.simps [of 12] dec_render.simps [of 1])




lemma vscwprintf_hello:
  "crt_vscwprintf (wide ''Hello %s, you are %d years old.'') [ArgStr (wide ''Ann''), ArgInt 30] = 32"
  by (simp only: crt_vscwprintf_def render_hello) (simp add: wide_def INT_MAX_def)

lemma vsnwprintf_s_hello:
  "crt_vsnwprintf_s 33 (wide ''Hello %s, you are %d years old.'') [ArgStr (wide ''Ann''), ArgInt 30] =
     wide ''Hello Ann, you are 30 years old.'' @ [0]"
  by (simp only: crt_vsnwprintf_s_def render_hello) (simp add: wide_def)

lemma length_hello: "int (length (wide ''Hello Ann, you are 30 years old.'')) = 32"
  by (simp add: wide_def)

lemma StringPrintf_crt:
  assumes "render format args = Some rendered" and "int (length rendered) < INT_MAX"
  shows "StringPrintf crt_vscwprintf crt_vsnwprintf_s format args = Returned rendered"
proof (rule StringPrintf_text)
  show "crt_vscwprintf format args = int (length rendered)"
    using assms(2) by (simp add: crt_vscwprintf_def assms(1))
  show "int (length rendered) < INT_MAX" by (rule assms(2))
  show "crt_vsnwprintf_s (Suc (length rendered)) format args = rendered @ [0]"
    by (simp add: crt_vsnwprintf_s_def assms(1))
qed

text \<open>
  The template of the repository's test and the numeric example of the spec, which is the
  text of \<^verbatim>\<open>FormatDword\<close> after the prefix.
\<close>

lemma StringPrintf_test_template:
  "StringPrintf crt_vscwprintf crt_vsnwprintf_s (wide ''Testing StringPrintf %s %d 0x%08X.'')
     [ArgStr (wide ''Hello''), ArgInt 10, ArgInt E_INVALIDARG] =
     Returned (wide ''Testing StringPrintf Hello 10 0x80070057.'')"
  by (rule StringPrintf_crt [OF render_test_template]) (simp add: wide_def INT_MAX_def)

lemma StringPrintf_hex_example:
  "StringPrintf crt_vscwprintf crt_vsnwprintf_s (wide ''0x%08X'') [ArgInt 0xDEADBEEF] =
     Returned (wide ''0x'' @ FormatDword 0xDEADBEEF)"
  by (rule StringPrintf_crt [OF render_hex_example])
    (simp add: wide_def INT_MAX_def length_FormatDword)

section \<open>Properties of the hex formatters\<close>

text \<open>
  C7: \<^verbatim>\<open>FormatLowNibble\<close> is total and has no error branch. For every byte \<open>b\<close> the masked
  value \<open>b AND 0x0F\<close> lies between 0 and 15; the result is the character \<^verbatim>\<open>'0'\<close> plus
  that value when it is below 10 and \<^verbatim>\<open>'A'\<close> plus that value minus 10 otherwise; the
  result is always one of \<^verbatim>\<open>0123456789ABCDEF\<close>, and the sixteen nibble values give exactly
  these sixteen characters, in this order.
\<close>

theorem FormatLowNibble_total:
  "unat (b AND 0x0F) \<le> 15 \<and>
   FormatLowNibble b =
     (if unat (b AND 0x0F) < 10 then wchar CHR ''0'' + word_of_nat (unat (b AND 0x0F))
      else wchar CHR ''A'' + word_of_nat (unat (b AND 0x0F) - 10)) \<and>
   is_hex_char (FormatLowNibble b) \<and>
   map FormatLowNibble [0, 1, 2, 3, 4, 5, 6, 7, 8, 9, 10, 11, 12, 13, 14, 15] =
     wide ''0123456789ABCDEF''"
proof (intro conjI)
  have "unat (b AND 0x0F) < 16" by (simp add: unat_low_nibble)
  then show "unat (b AND 0x0F) \<le> 15" by simp
  show "FormatLowNibble b =
     (if unat (b AND 0x0F) < 10 then wchar CHR ''0'' + word_of_nat (unat (b AND 0x0F))
      else wchar CHR ''A'' + word_of_nat (unat (b AND 0x0F) - 10))"
    unfolding unat_low_nibble FormatLowNibble_value
    by (simp add: wchar_def of_nat_diff)
  show "is_hex_char (FormatLowNibble b)"
    by (simp only: FormatLowNibble_hex_digit hex_digit_is_hex_char)
  show "map FormatLowNibble [0, 1, 2, 3, 4, 5, 6, 7, 8, 9, 10, 11, 12, 13, 14, 15] =
     wide ''0123456789ABCDEF''"
    by (simp add: FormatLowNibble_def wide_def wchar_def)
qed

text \<open>
  C1: for every byte \<open>b\<close>, \<^verbatim>\<open>FormatByte\<close> returns exactly two characters, each one of
  \<^verbatim>\<open>0123456789ABCDEF\<close>, and the result is the two digit upper case hexadecimal rendering
  of \<open>b\<close>; 0 gives \<^verbatim>\<open>00\<close>, 255 gives \<^verbatim>\<open>FF\<close> and \<^verbatim>\<open>0xAB\<close> gives \<^verbatim>\<open>AB\<close>.
\<close>

theorem FormatByte_hex:
  "length (FormatByte b) = 2 \<and>
   list_all is_hex_char (FormatByte b) \<and>
   FormatByte b = wide (hex_render 2 (unat b)) \<and>
   FormatByte 0 = wide ''00'' \<and> FormatByte 255 = wide ''FF'' \<and> FormatByte 0xAB = wide ''AB''"
proof (intro conjI)
  show "length (FormatByte b) = 2" by (rule length_FormatByte)
  show "list_all is_hex_char (FormatByte b)"
    by (simp add: FormatByte_digits hex_digit_is_hex_char)
  show "FormatByte b = wide (hex_render 2 (unat b))"
    by (simp add: FormatByte_digits wide_def hex_render_2)
  show "FormatByte 0 = wide ''00''"
    by (simp add: FormatByte_def FormatLowNibble_def wide_def wchar_def)
  show "FormatByte 255 = wide ''FF''"
    by (simp add: FormatByte_def FormatLowNibble_def wide_def wchar_def)
  show "FormatByte 0xAB = wide ''AB''"
    by (simp add: FormatByte_def FormatLowNibble_def wide_def wchar_def)
qed

text \<open>
  C2: for every 16 bit \<open>w\<close>, \<^verbatim>\<open>FormatWord\<close> returns exactly four characters, the text of
  \<^verbatim>\<open>FormatByte\<close> for the high byte \<open>w >> 8\<close> followed by the text of \<^verbatim>\<open>FormatByte\<close> for
  the low byte \<open>w AND 0x00FF\<close>; \<^verbatim>\<open>0x1234\<close> gives \<^verbatim>\<open>1234\<close>, 0 gives \<^verbatim>\<open>0000\<close> and
  \<^verbatim>\<open>0xFFFF\<close> gives \<^verbatim>\<open>FFFF\<close>.
\<close>

theorem FormatWord_concat:
  "length (FormatWord w) = 4 \<and>
   FormatWord w = FormatByte (ucast (drop_bit 8 w)) @ FormatByte (ucast (w AND 0x00FF)) \<and>
   FormatWord 0x1234 = wide ''1234'' \<and> FormatWord 0 = wide ''0000'' \<and>
   FormatWord 0xFFFF = wide ''FFFF''"
proof (intro conjI)
  show "length (FormatWord w) = 4" by (rule length_FormatWord)
  show "FormatWord w = FormatByte (ucast (drop_bit 8 w)) @ FormatByte (ucast (w AND 0x00FF))"
    by (simp only: FormatWord_bytes highByte_ucast lowByte_ucast)
  show "FormatWord 0x1234 = wide ''1234''"
    by (simp add: FormatWord_def FormatLowNibble_def wide_def wchar_def)
  show "FormatWord 0 = wide ''0000''"
    by (simp add: FormatWord_def FormatLowNibble_def wide_def wchar_def)
  show "FormatWord 0xFFFF = wide ''FFFF''"
    by (simp add: FormatWord_def FormatLowNibble_def wide_def wchar_def)
qed

text \<open>
  C3: for every 32 bit \<open>dw\<close>, \<^verbatim>\<open>FormatDword\<close> returns exactly eight characters, the text
  of \<^verbatim>\<open>FormatWord\<close> for the high word \<open>dw >> 16\<close> followed by the text of
  \<^verbatim>\<open>FormatWord\<close> for the low word \<open>dw AND 0x0000FFFF\<close>; \<^verbatim>\<open>0x12345678\<close> gives
  \<^verbatim>\<open>12345678\<close>, \<^verbatim>\<open>0xFFFFFFFF\<close> gives \<^verbatim>\<open>FFFFFFFF\<close> and 0 gives \<^verbatim>\<open>00000000\<close>.
\<close>

theorem FormatDword_concat:
  "length (FormatDword dw) = 8 \<and>
   FormatDword dw = FormatWord (ucast (drop_bit 16 dw)) @ FormatWord (ucast (dw AND 0x0000FFFF)) \<and>
   FormatDword 0x12345678 = wide ''12345678'' \<and> FormatDword 0xFFFFFFFF = wide ''FFFFFFFF'' \<and>
   FormatDword 0 = wide ''00000000''"
proof (intro conjI)
  show "length (FormatDword dw) = 8" by (rule length_FormatDword)
  show "FormatDword dw = FormatWord (ucast (drop_bit 16 dw)) @ FormatWord (ucast (dw AND 0x0000FFFF))"
    by (rule FormatDword_words)
  show "FormatDword 0x12345678 = wide ''12345678''"
    by (simp add: FormatDword_def FormatWord_def FormatLowNibble_def wide_def wchar_def)
  show "FormatDword 0xFFFFFFFF = wide ''FFFFFFFF''"
    by (simp add: FormatDword_def FormatWord_def FormatLowNibble_def wide_def wchar_def)
  show "FormatDword 0 = wide ''00000000''"
    by (simp add: FormatDword_def FormatWord_def FormatLowNibble_def wide_def wchar_def)
qed

text \<open>
  C6: for every signed 32 bit status \<open>hr\<close>, \<^verbatim>\<open>FormatHResult\<close> returns the text of
  \<^verbatim>\<open>FormatDword\<close> for the unsigned value \<open>sint hr mod 2 ^ 32\<close>, which has the bits of
  \<open>hr\<close>; the success status gives \<^verbatim>\<open>00000000\<close>, and the invalid argument status, a
  negative number, gives \<^verbatim>\<open>80070057\<close>.
\<close>

theorem FormatHResult_reinterprets:
  "FormatHResult hr = FormatDword (word_of_int (sint hr mod 2 ^ 32)) \<and>
   uint (word_of_int (sint hr mod 2 ^ 32) :: DWORD) = sint hr mod 2 ^ 32 \<and>
   (word_of_int (sint hr mod 2 ^ 32) :: DWORD) = hr \<and>
   FormatHResult S_OK = wide ''00000000'' \<and>
   sint E_INVALIDARG = - 2147024809 \<and>
   FormatHResult E_INVALIDARG = wide ''80070057''"
proof (intro conjI)
  have m: "(word_of_int (sint hr mod 2 ^ 32) :: DWORD) = word_of_int (sint hr)"
    by (subst word_of_int_eq_iff) (simp add: take_bit_eq_mod)
  show "FormatHResult hr = FormatDword (word_of_int (sint hr mod 2 ^ 32))"
    by (simp only: FormatHResult_def m)
  have s: "(word_of_int (sint hr) :: DWORD) = hr"
    by (metis of_int_sint scast_id)
  show "(word_of_int (sint hr mod 2 ^ 32) :: DWORD) = hr"
    using m s by (rule trans)
  show "uint (word_of_int (sint hr mod 2 ^ 32) :: DWORD) = sint hr mod 2 ^ 32"
    by (simp only: uint_word_of_int) simp
  show "FormatHResult S_OK = wide ''00000000''"
    by (simp add: S_OK_def FormatHResult_def FormatDword_def FormatWord_def FormatLowNibble_def wide_def wchar_def)
  show "sint E_INVALIDARG = - 2147024809"
    by (simp add: E_INVALIDARG_def)
  show "FormatHResult E_INVALIDARG = wide ''80070057''"
    by (simp add: E_INVALIDARG_def FormatHResult_def FormatDword_def FormatWord_def FormatLowNibble_def wide_def wchar_def)
qed

text \<open>
  C10: the hex formatters are injective. Distinct bytes have distinct texts under
  \<^verbatim>\<open>FormatByte\<close>, distinct 16 bit values under \<^verbatim>\<open>FormatWord\<close>, distinct 32 bit values
  under \<^verbatim>\<open>FormatDword\<close>; reading the digits of the text back gives the value that was
  formatted.
\<close>

theorem hex_formatters_injective:
  "(a \<noteq> b \<longrightarrow> FormatByte a \<noteq> FormatByte b) \<and>
   (w \<noteq> w' \<longrightarrow> FormatWord w \<noteq> FormatWord w') \<and>
   (dw \<noteq> dw' \<longrightarrow> FormatDword dw \<noteq> FormatDword dw') \<and>
   parse_hex (FormatByte a) = unat a \<and>
   parse_hex (FormatWord w) = unat w \<and>
   parse_hex (FormatDword dw) = unat dw"
  using FormatByte_inj [of a b] FormatWord_inj [of w w'] FormatDword_inj [of dw dw']
    parse_hex_FormatByte [of a] parse_hex_FormatWord [of w] parse_hex_FormatDword [of dw]
  by blast

theorem hex_formatters_injective_witness:
  "(0x1A :: BYTE) \<noteq> 0xA1 \<and> FormatByte 0x1A \<noteq> FormatByte 0xA1 \<and>
   (0x00FF :: WORD) \<noteq> 0xFF00 \<and> FormatWord 0x00FF \<noteq> FormatWord 0xFF00 \<and>
   (0x0000FFFF :: DWORD) \<noteq> 0xFFFF0000 \<and> FormatDword 0x0000FFFF \<noteq> FormatDword 0xFFFF0000"
  using hex_formatters_injective [of "0x1A" "0xA1" "0x00FF" "0xFF00" "0x0000FFFF" "0xFFFF0000"]
  by simp

section \<open>Properties of the printf-like formatter\<close>

text \<open>
  C4: when the measuring primitive reports the length \<open>L\<close> of the rendered text, without
  the terminator, and \<open>L + 1\<close> is still an \<^verbatim>\<open>int\<close>, \<^verbatim>\<open>StringPrintf\<close> returns a string
  of exactly \<open>L\<close> code units, whatever the rendering primitive stores; when that stores the
  \<open>L\<close> code units of the text and the terminator, the returned string is the text, without
  the terminator. With the printf of the examples, every template and argument list that
  match are rendered so, and the template
  \<^verbatim>\<open>Hello %s, you are %d years old.\<close> with the arguments \<^verbatim>\<open>Ann\<close> and 30 gives
  \<^verbatim>\<open>Hello Ann, you are 30 years old.\<close>
\<close>

theorem StringPrintf_exact_length:
  assumes "vscwprintf format args = L" and "0 \<le> L" and "L < INT_MAX"
  shows "(\<exists>s. StringPrintf vscwprintf vsnwprintf_s format args = Returned s \<and> int (length s) = L) \<and>
    (\<forall>text. int (length text) = L \<and> vsnwprintf_s (nat (L + 1)) format args = text @ [0] \<longrightarrow>
       StringPrintf vscwprintf vsnwprintf_s format args = Returned text) \<and>
    (\<forall>text. render template values = Some text \<and> int (length text) < INT_MAX \<longrightarrow>
       StringPrintf crt_vscwprintf crt_vsnwprintf_s template values = Returned text) \<and>
    StringPrintf crt_vscwprintf crt_vsnwprintf_s
      (wide ''Hello %s, you are %d years old.'') [ArgStr (wide ''Ann''), ArgInt 30] =
      Returned (wide ''Hello Ann, you are 30 years old.'')"
proof (intro conjI allI impI)
  show "\<exists>s. StringPrintf vscwprintf vsnwprintf_s format args = Returned s \<and> int (length s) = L"
    using assms by (rule StringPrintf_returns)
next
  fix t
  assume t: "int (length t) = L \<and> vsnwprintf_s (nat (L + 1)) format args = t @ [0]"
  then have n: "nat (L + 1) = Suc (length t)" by auto
  show "StringPrintf vscwprintf vsnwprintf_s format args = Returned t"
  proof (rule StringPrintf_text)
    show "vscwprintf format args = int (length t)" using assms(1) t by simp
    show "int (length t) < INT_MAX" using assms(3) t by simp
    show "vsnwprintf_s (Suc (length t)) format args = t @ [0]" using t n by simp
  qed
next
  fix t
  assume "render template values = Some t \<and> int (length t) < INT_MAX"
  then show "StringPrintf crt_vscwprintf crt_vsnwprintf_s template values = Returned t"
    by (simp add: StringPrintf_crt)
next
  let ?text = "wide ''Hello Ann, you are 30 years old.''"
  show "StringPrintf crt_vscwprintf crt_vsnwprintf_s
      (wide ''Hello %s, you are %d years old.'') [ArgStr (wide ''Ann''), ArgInt 30] = Returned ?text"
  proof (rule StringPrintf_text)
    show "crt_vscwprintf (wide ''Hello %s, you are %d years old.'') [ArgStr (wide ''Ann''), ArgInt 30] =
        int (length ?text)"
      by (simp only: vscwprintf_hello length_hello)
    show "int (length ?text) < INT_MAX"
      by (simp only: length_hello) (simp add: INT_MAX_def)
    have "Suc (length ?text) = 33" using length_hello by simp
    then show "crt_vsnwprintf_s (Suc (length ?text))
        (wide ''Hello %s, you are %d years old.'') [ArgStr (wide ''Ann''), ArgInt 30] = ?text @ [0]"
      by (simp only: vsnwprintf_s_hello)
  qed
qed

theorem StringPrintf_exact_length_witness:
  "crt_vscwprintf (wide ''%d%%'') [ArgInt (- 1205)] = 6 \<and> (0 :: int) \<le> 6 \<and> 6 < INT_MAX \<and>
   render (wide ''%d%%'') [ArgInt (- 1205)] = Some (wide ''-1205%'') \<and>
   int (length (wide ''-1205%'')) = 6 \<and>
   crt_vsnwprintf_s (nat (6 + 1)) (wide ''%d%%'') [ArgInt (- 1205)] = wide ''-1205%'' @ [0] \<and>
   (\<exists>s. StringPrintf crt_vscwprintf crt_vsnwprintf_s (wide ''%d%%'') [ArgInt (- 1205)] = Returned s \<and>
        int (length s) = 6) \<and>
   StringPrintf crt_vscwprintf crt_vsnwprintf_s (wide ''%d%%'') [ArgInt (- 1205)] =
     Returned (wide ''-1205%'')"
proof -
  have r: "render (wide ''%d%%'') [ArgInt (- 1205)] = Some (wide ''-1205%'')"
    by (rule render_minus)
  have m: "crt_vscwprintf (wide ''%d%%'') [ArgInt (- 1205)] = 6"
    by (simp only: crt_vscwprintf_def r) (simp add: wide_def INT_MAX_def)
  have l: "int (length (wide ''-1205%'')) = 6"
    by (simp add: wide_def)
  have w: "crt_vsnwprintf_s (nat (6 + 1)) (wide ''%d%%'') [ArgInt (- 1205)] = wide ''-1205%'' @ [0]"
    by (simp only: crt_vsnwprintf_s_def r) (simp add: wide_def)
  have b: "(0 :: int) \<le> 6" "6 < INT_MAX" by (simp_all add: INT_MAX_def)
  from StringPrintf_exact_length
      [of crt_vscwprintf "wide ''%d%%''" "[ArgInt (- 1205)]" 6 crt_vsnwprintf_s
        "wide ''%d%%''" "[ArgInt (- 1205)]"] r m l w b
  show ?thesis
    by blast
qed




section \<open>Properties of the resource lookup\<close>

text \<open>
  C8: \<^verbatim>\<open>LoadStringResource\<close> always returns a string. When the table has no entry for the
  module handle and the string id the string is empty, otherwise it is exactly the stored
  text; a table without the entry and a table with an empty text for it give the same result.
\<close>

theorem LoadStringResource_lookup:
  "LoadStringResource table hInstance stringId =
     Returned (case table (hInstance, stringId) of None \<Rightarrow> [] | Some text \<Rightarrow> text) \<and>
   LoadStringResource (table((hInstance, stringId) := None)) hInstance stringId =
     LoadStringResource (table((hInstance, stringId) \<mapsto> [])) hInstance stringId"
  by (simp add: LoadStringResource_def LoadString_def split: option.splits)

end
